theory Spec2Isabelle
  imports Main "HOL-Library.Word"
begin

section \<open>Request decompressor (decompressor.go)\<close>

text \<open>
  A shallow embedding of the Caddy middleware of \<^verbatim>\<open>decompressor.go\<close>: the types
  \<^verbatim>\<open>Middleware\<close> and \<^verbatim>\<open>DecompressionMetrics\<close>, \<^verbatim>\<open>Provision\<close> and \<^verbatim>\<open>ServeHTTP\<close>.
  Go values that the handler shares with its caller by pointer (the request, the
  readers behind \<^verbatim>\<open>r.Body\<close>, the metrics) are passed in and returned updated.
\<close>

subsection \<open>Go values\<close>

type_synonym byte = "8 word"

type_synonym int64 = "64 word"

text \<open>
  A \<^verbatim>\<open>float64\<close> is kept as its IEEE-754 bit pattern; the zero value \<^verbatim>\<open>0.0\<close> is the
  all-zero pattern. The handler does no arithmetic on it.
\<close>

type_synonym float64 = "64 word"

text \<open>
  A Go \<^verbatim>\<open>error\<close> value: an error known by its message alone (\<^verbatim>\<open>fmt.Errorf\<close> without
  \<^verbatim>\<open>%w\<close>, the errors of \<^verbatim>\<open>io\<close> and of the decoders), an error with a message that
  wraps others (its \<^verbatim>\<open>Unwrap\<close> method returns them, one or several), or a
  \<^verbatim>\<open>caddyhttp.HandlerError\<close> with its status code and the error inside it. (The random
  \<^verbatim>\<open>ID\<close> and the \<^verbatim>\<open>Trace\<close> of a \<^verbatim>\<open>HandlerError\<close> are left out.) A returned \<^verbatim>\<open>nil\<close> is
  \<open>None\<close> of \<open>error option\<close>.
\<close>

datatype error =
    ErrorString string
  | WrapError string "error list"
  | HandlerError (StatusCode: int) (Err: error)

definition StatusBadRequest :: int where
  "StatusBadRequest = 400"

text \<open>
  \<^verbatim>\<open>errors.As(err, &he)\<close> for \<^verbatim>\<open>var he HandlerError\<close>: the first \<^verbatim>\<open>HandlerError\<close> met
  when \<^verbatim>\<open>err\<close> is searched, itself first and then what it wraps, depth first and in
  order; \<open>None\<close> when there is none.
\<close>

fun errors_As :: "error \<Rightarrow> (int \<times> error) option"
  and errors_As_any :: "error list \<Rightarrow> (int \<times> error) option" where
  "errors_As (ErrorString s) = None"
| "errors_As (WrapError s errs) = errors_As_any errs"
| "errors_As (HandlerError statusCode err) = Some (statusCode, err)"
| "errors_As_any [] = None"
| "errors_As_any (err # errs) =
     (case errors_As err of Some he \<Rightarrow> Some he | None \<Rightarrow> errors_As_any errs)"

text \<open>
  \<^verbatim>\<open>caddyhttp.Error(statusCode, err)\<close>: when \<^verbatim>\<open>err\<close> is or wraps a \<^verbatim>\<open>HandlerError\<close>, that
  one is returned, with \<^verbatim>\<open>statusCode\<close> only where its own status code is zero; any
  other \<^verbatim>\<open>err\<close> is put into a new \<^verbatim>\<open>HandlerError\<close> with \<^verbatim>\<open>statusCode\<close>.
\<close>

definition caddyhttp_Error :: "int \<Rightarrow> error \<Rightarrow> error" where
  "caddyhttp_Error statusCode err =
     (case errors_As err of
        Some (code, inner) \<Rightarrow> HandlerError (if code = 0 then statusCode else code) inner
      | None \<Rightarrow> HandlerError statusCode err)"

definition fmt_Errorf_s :: "string \<Rightarrow> string \<Rightarrow> error" where
  \<comment> \<open>\<^verbatim>\<open>fmt.Errorf(prefix + "%s", arg)\<close>\<close>
  "fmt_Errorf_s prefix arg = ErrorString (prefix @ arg)"

text \<open>
  What a call never returns from: a nil pointer dereference panics.
\<close>

datatype 'a result = Panic | Return 'a

subsection \<open>Readers\<close>

text \<open>
  An \<^verbatim>\<open>io.Reader\<close> over a finite source delivers some bytes and then ends, with
  \<^verbatim>\<open>io.EOF\<close> (\<open>fail = None\<close>) or with an error. \<^verbatim>\<open>io.ReadAll\<close> reads until
  either: it returns the bytes read and \<^verbatim>\<open>nil\<close> at \<^verbatim>\<open>io.EOF\<close>, the error
  otherwise, and leaves the reader drained.
\<close>

record reader =
  data :: "byte list"
  fail :: "error option"

definition bytes_NewReader :: "byte list \<Rightarrow> reader" where
  "bytes_NewReader b = \<lparr>data = b, fail = None\<rparr>"

definition io_ReadAll :: "reader \<Rightarrow> (byte list \<times> error option) \<times> reader" where
  "io_ReadAll rd = ((data rd, fail rd), rd\<lparr>data := []\<rparr>)"

subsection \<open>The libraries the handler calls\<close>

text \<open>
  The decoders (\<^verbatim>\<open>compress/gzip\<close>, \<^verbatim>\<open>compress/bzip2\<close>,
  \<^verbatim>\<open>github.com/klauspost/compress/zstd\<close>) and the Unicode tables behind
  \<^verbatim>\<open>strings.ToLower\<close> are not part of the repository: they are parameters. Each
  \<^verbatim>\<open>NewReader\<close> is given the buffered body (the handler always wraps it with
  \<^verbatim>\<open>bytes.NewReader\<close>); \<^verbatim>\<open>gzip.NewReader\<close> and \<^verbatim>\<open>zstd.NewReader\<close> return a
  reader or an error, \<^verbatim>\<open>bzip2.NewReader\<close> returns a reader only.
\<close>

record lib =
  unicode_ToLower :: "string \<Rightarrow> string"
  gzip_NewReader :: "byte list \<Rightarrow> error + reader"
  bzip2_NewReader :: "byte list \<Rightarrow> reader"
  zstd_NewReader :: "byte list \<Rightarrow> error + reader"

text \<open>
  \<^verbatim>\<open>strings.ToLower\<close>: a string of ASCII bytes has its letters \<^verbatim>\<open>A\<close>..\<^verbatim>\<open>Z\<close> moved
  to \<^verbatim>\<open>a\<close>..\<^verbatim>\<open>z\<close>; any other string goes through the Unicode mapping.
\<close>

definition isASCII :: "string \<Rightarrow> bool" where
  "isASCII s = (\<forall>c \<in> set s. (of_char c :: nat) < 128)"

definition lower_byte :: "char \<Rightarrow> char" where
  "lower_byte c =
     (if (of_char (CHR ''A'') :: nat) \<le> of_char c \<and> (of_char c :: nat) \<le> of_char (CHR ''Z'')
      then char_of ((of_char c :: nat) + 32) else c)"

definition strings_ToLower :: "lib \<Rightarrow> string \<Rightarrow> string" where
  "strings_ToLower L s = (if isASCII s then map lower_byte s else unicode_ToLower L s)"

subsection \<open>The request\<close>

text \<open>
  Of \<^verbatim>\<open>http.Request\<close> the handler uses \<^verbatim>\<open>Header\<close> (a \<^verbatim>\<open>map[string][]string\<close>),
  \<^verbatim>\<open>Body\<close> and \<^verbatim>\<open>ContentLength\<close>. \<^verbatim>\<open>Body\<close> is a reference to a reader: an index
  into the list of the readers that exist. An index outside the list stands for a
  \<^verbatim>\<open>nil\<close> body.
\<close>

type_synonym Header = "string \<rightharpoonup> string list"

record Request =
  Header :: Header
  Body :: nat
  ContentLength :: int64

text \<open>
  \<^verbatim>\<open>Header.Get\<close> and \<^verbatim>\<open>Header.Del\<close>. Both canonicalise the key first; the only key
  the handler passes, \<^verbatim>\<open>"Content-Encoding"\<close>, is canonical already.
\<close>

definition Header_Get :: "Header \<Rightarrow> string \<Rightarrow> string" where
  "Header_Get h key = (case h key of None \<Rightarrow> '''' | Some [] \<Rightarrow> '''' | Some (v # _) \<Rightarrow> v)"

definition Header_Del :: "Header \<Rightarrow> string \<Rightarrow> Header" where
  "Header_Del h key = h(key := None)"

text \<open>
  What \<^verbatim>\<open>ServeHTTP\<close> and the next handler of the chain share: the response writer
  \<^verbatim>\<open>w\<close>, the request \<^verbatim>\<open>*r\<close> and the readers.
\<close>

record 'w world =
  writer :: 'w
  request :: Request
  readers :: "reader list"

text \<open>
  \<^verbatim>\<open>caddyhttp.Handler\<close>: \<^verbatim>\<open>next.ServeHTTP(w, r)\<close> returns an error or \<^verbatim>\<open>nil\<close> and may
  change what it is given.
\<close>

type_synonym 'w Handler = "'w world \<Rightarrow> error option \<times> 'w world"

subsection \<open>Middleware and metrics\<close>

record DecompressionMetrics =
  TotalRequests :: int64
  SuccessfulRequests :: int64
  FailedRequests :: int64
  DecompressionTimings :: float64
  RequestsByCompression :: "string \<rightharpoonup> int64"

text \<open>
  \<^verbatim>\<open>RequestsByCompression\<close> is a \<^verbatim>\<open>map[string]*int64\<close>; every pointer in it comes from
  its own \<^verbatim>\<open>new(int64)\<close>, so the map is kept as a map to the counters' values.
  The two pointer fields of \<^verbatim>\<open>Middleware\<close> are \<^verbatim>\<open>nil\<close> (\<open>None\<close>) until
  \<^verbatim>\<open>Provision\<close> sets them.
\<close>

record 'l Middleware =
  logger :: "'l option"
  metrics :: "DecompressionMetrics option"

definition atomic_AddInt64 :: "int64 \<Rightarrow> int64 \<Rightarrow> int64" where
  "atomic_AddInt64 v delta = v + delta"

definition Provision :: "'l Middleware \<Rightarrow> 'l \<Rightarrow> 'l Middleware \<times> error option" where
  \<comment> \<open>the second argument is \<^verbatim>\<open>ctx.Logger()\<close>\<close>
  "Provision m ctx_Logger =
     (m\<lparr>logger := Some ctx_Logger,
        metrics := Some \<lparr>TotalRequests = 0, SuccessfulRequests = 0, FailedRequests = 0,
                         DecompressionTimings = 0, RequestsByCompression = Map.empty\<rparr>\<rparr>,
      None)"

subsection \<open>ServeHTTP\<close>

text \<open>
  The function's variable \<^verbatim>\<open>err\<close> is declared by \<^verbatim>\<open>body, err := io.ReadAll(r.Body)\<close>
  and tested once more after the \<^verbatim>\<open>switch\<close> (line 113). Each \<^verbatim>\<open>case\<close> clause is a
  block of its own:
  \<^item> in the \<^verbatim>\<open>gzip\<close> and \<^verbatim>\<open>zstd\<close> clauses, \<^verbatim>\<open>reader, err := gzip.NewReader(...)\<close> and
    \<^verbatim>\<open>decoder, err := zstd.NewReader(...)\<close> declare an \<^verbatim>\<open>err\<close> of the clause (a short
    declaration reuses a variable of the same block only), and
    \<^verbatim>\<open>decompressed, err = io.ReadAll(...)\<close> assigns that one, \<open>clause_err\<close> below; the
    function's \<^verbatim>\<open>err\<close> keeps the \<^verbatim>\<open>nil\<close> it has from the body read;
  \<^item> the \<^verbatim>\<open>bz2\<close> clause declares \<^verbatim>\<open>reader\<close> alone, so its
    \<^verbatim>\<open>decompressed, err = io.ReadAll(reader)\<close> assigns the function's \<^verbatim>\<open>err\<close>.
  \<^verbatim>\<open>decompressed\<close> is the function's variable in all three: the bytes that
  \<^verbatim>\<open>io.ReadAll\<close> has read, also when it returns an error. \<^verbatim>\<open>reader.Close()\<close> and
  \<^verbatim>\<open>decoder.Close()\<close> change nothing that is modelled. The local functions \<open>failed\<close>
  and \<open>finish\<close> are the three lines that every rejection repeats, and lines 113 to 123.
\<close>

definition ServeHTTP ::
  "lib \<Rightarrow> 'l Middleware \<Rightarrow> 'w Handler \<Rightarrow> 'w world \<Rightarrow> (error option \<times> 'l Middleware \<times> 'w world) result"
where
  "ServeHTTP L m next wd =
    (let r = request wd in
     if Header_Get (Header r) ''Content-Encoding'' = '''' then
       (case next wd of (out, wd') \<Rightarrow> Return (out, m, wd'))
     else
       (case metrics m of
          None \<Rightarrow> Panic
        | Some ms0 \<Rightarrow>
           (let ms1 = ms0\<lparr>TotalRequests := atomic_AddInt64 (TotalRequests ms0) 1\<rparr>;
                encoding = strings_ToLower L (Header_Get (Header r) ''Content-Encoding'');
                ms2 = (if RequestsByCompression ms1 encoding = None
                       then ms1\<lparr>RequestsByCompression := (RequestsByCompression ms1)(encoding \<mapsto> 0)\<rparr>
                       else ms1)
            in case RequestsByCompression ms2 encoding of
                 None \<Rightarrow> Panic
               | Some c \<Rightarrow>
                  (let ms3 = ms2\<lparr>RequestsByCompression :=
                                   (RequestsByCompression ms2)(encoding \<mapsto> atomic_AddInt64 c 1)\<rparr>
                   in if length (readers wd) \<le> Body r then Panic
                      else
                        (case io_ReadAll (readers wd ! Body r) of
                           ((body, err), drained) \<Rightarrow>
                            (let wd1 = wd\<lparr>readers := (readers wd)[Body r := drained]\<rparr>;
                                 failed = (\<lambda>e. Return
                                   (Some (caddyhttp_Error StatusBadRequest e),
                                    m\<lparr>metrics := Some (ms3\<lparr>FailedRequests :=
                                          atomic_AddInt64 (FailedRequests ms3) 1\<rparr>)\<rparr>,
                                    wd1));
                                 finish = (\<lambda>(decompressed, err).
                                   (case err of
                                      Some e \<Rightarrow> failed e
                                    | None \<Rightarrow>
                                       (let ms4 = ms3\<lparr>SuccessfulRequests :=
                                                    atomic_AddInt64 (SuccessfulRequests ms3) 1\<rparr>;
                                            r1 = r\<lparr>Body := length (readers wd1)\<rparr>;
                                            rs = readers wd1 @ [bytes_NewReader decompressed];
                                            r2 = r1\<lparr>Header := Header_Del (Header r1) ''Content-Encoding''\<rparr>;
                                            r3 = r2\<lparr>ContentLength := of_nat (length decompressed)\<rparr>
                                        in case next (wd1\<lparr>request := r3, readers := rs\<rparr>) of
                                             (out, wd') \<Rightarrow>
                                               Return (out, m\<lparr>metrics := Some ms4\<rparr>, wd'))))
                             in case err of
                                  Some e \<Rightarrow> failed e
                                | None \<Rightarrow>
                                   (if encoding = ''gzip'' then
                                      (case gzip_NewReader L body of
                                         Inl e \<Rightarrow> failed e
                                       | Inr reader \<Rightarrow>
                                          (case fst (io_ReadAll reader) of
                                             (decompressed, clause_err) \<Rightarrow>
                                               finish (decompressed, err)))
                                    else if encoding = ''bz2'' then
                                      (case fst (io_ReadAll (bzip2_NewReader L body)) of
                                         (decompressed, err) \<Rightarrow> finish (decompressed, err))
                                    else if encoding = ''zstd'' then
                                      (case zstd_NewReader L body of
                                         Inl e \<Rightarrow> failed e
                                       | Inr decoder \<Rightarrow>
                                          (case fst (io_ReadAll decoder) of
                                             (decompressed, clause_err) \<Rightarrow>
                                               finish (decompressed, err)))
                                    else
                                      failed (fmt_Errorf_s ''unsupported Content-Encoding: ''
                                                encoding))))))))"

subsection \<open>Notation for the statements\<close>

text \<open>
  Abbreviations only, unfolded by the parser: the lower-cased token of a request, the
  metrics after lines 69 to 75 of \<^verbatim>\<open>ServeHTTP\<close> (total counter and per-token counter
  incremented), the reader behind \<^verbatim>\<open>r.Body\<close>, and the world after
  \<^verbatim>\<open>io.ReadAll(r.Body)\<close>.
\<close>

abbreviation token :: "lib \<Rightarrow> 'w world \<Rightarrow> string" where
  "token L wd \<equiv> strings_ToLower L (Header_Get (Header (request wd)) ''Content-Encoding'')"

abbreviation seen :: "string \<Rightarrow> DecompressionMetrics \<Rightarrow> DecompressionMetrics" where
  "seen enc ms \<equiv> ms\<lparr>TotalRequests := TotalRequests ms + 1,
     RequestsByCompression := (RequestsByCompression ms)
       (enc \<mapsto> (case RequestsByCompression ms enc of None \<Rightarrow> 1 | Some c \<Rightarrow> c + 1))\<rparr>"

abbreviation body_reader :: "'w world \<Rightarrow> reader" where
  "body_reader wd \<equiv> readers wd ! Body (request wd)"

abbreviation body_read :: "'w world \<Rightarrow> 'w world" where
  "body_read wd \<equiv>
     wd\<lparr>readers := (readers wd)[Body (request wd) := (body_reader wd)\<lparr>data := []\<rparr>]\<rparr>"

text \<open>
  The result of a rejection with error \<open>e\<close>, and the world handed to \<^verbatim>\<open>next\<close> after
  a body was decoded to \<open>d\<close>, with the result of the call.
\<close>

abbreviation rejected ::
  "'l Middleware \<Rightarrow> DecompressionMetrics \<Rightarrow> string \<Rightarrow> 'w world \<Rightarrow> error
     \<Rightarrow> (error option \<times> 'l Middleware \<times> 'w world) result" where
  "rejected m ms enc wd e \<equiv>
     Return (Some (caddyhttp_Error StatusBadRequest e),
             m\<lparr>metrics := Some ((seen enc ms)\<lparr>FailedRequests := FailedRequests ms + 1\<rparr>)\<rparr>,
             body_read wd)"

abbreviation decoded :: "'w world \<Rightarrow> byte list \<Rightarrow> 'w world" where
  "decoded wd d \<equiv>
     wd\<lparr>request := (request wd)\<lparr>Body := length (readers wd),
                                 Header := (Header (request wd))(''Content-Encoding'' := None),
                                 ContentLength := of_nat (length d)\<rparr>,
        readers := (readers wd)[Body (request wd) := (body_reader wd)\<lparr>data := []\<rparr>]
                   @ [\<lparr>data = d, fail = None\<rparr>]\<rparr>"

abbreviation forwarded ::
  "'l Middleware \<Rightarrow> DecompressionMetrics \<Rightarrow> string \<Rightarrow> 'w Handler \<Rightarrow> 'w world \<Rightarrow> byte list
     \<Rightarrow> (error option \<times> 'l Middleware \<times> 'w world) result" where
  "forwarded m ms enc next wd d \<equiv>
     (case next (decoded wd d) of (out, wd') \<Rightarrow>
        Return (out,
                m\<lparr>metrics :=
                     Some ((seen enc ms)\<lparr>SuccessfulRequests := SuccessfulRequests ms + 1\<rparr>)\<rparr>,
                wd'))"

text \<open>
  The decoder that the \<^verbatim>\<open>switch\<close> of \<^verbatim>\<open>ServeHTTP\<close> constructs for a supported token,
  when its construction succeeds.
\<close>

abbreviation constructs :: "lib \<Rightarrow> string \<Rightarrow> byte list \<Rightarrow> reader \<Rightarrow> bool" where
  "constructs L enc body rd \<equiv>
     (enc = ''gzip'' \<and> gzip_NewReader L body = Inr rd) \<or>
     (enc = ''bz2'' \<and> bzip2_NewReader L body = rd) \<or>
     (enc = ''zstd'' \<and> zstd_NewReader L body = Inr rd)"

subsection \<open>The contract of the codecs\<close>

text \<open>
  Modelled from the spec: the encoders and decoders of gzip, bzip2 and zstd are libraries
  outside the repository (the handler calls the decoders only, and no encoder occurs
  in it). The spec (section 8) takes them to be inverse to each other:
  \<^verbatim>\<open>decode(encode(x)) == x\<close> for a validly compressed body. For an encoder \<open>encode\<close>, given
  the token, this says of the decoders in \<open>L\<close>: on \<open>encode token x\<close> the decoder is
  constructed, and \<^verbatim>\<open>io.ReadAll\<close> on it returns \<open>x\<close> and no error.
\<close>

definition codec_roundtrip :: "lib \<Rightarrow> (string \<Rightarrow> byte list \<Rightarrow> byte list) \<Rightarrow> bool" where
  "codec_roundtrip L encode =
     (\<forall>x. (case gzip_NewReader L (encode ''gzip'' x) of
              Inl e \<Rightarrow> False
            | Inr rd \<Rightarrow> fst (io_ReadAll rd) = (x, None))
        \<and> fst (io_ReadAll (bzip2_NewReader L (encode ''bz2'' x))) = (x, None)
        \<and> (case zstd_NewReader L (encode ''zstd'' x) of
              Inl e \<Rightarrow> False
            | Inr rd \<Rightarrow> fst (io_ReadAll rd) = (x, None)))"

subsection \<open>Concrete instances\<close>

text \<open>
  A small library to instantiate the theorems with: three formats that keep the payload
  as it is, behind the magic number of the real format and one byte that announces the
  payload's length. A payload shorter than announced is a truncated stream: its reader
  delivers what is there and fails. The gzip stand-in checks its magic number when the
  reader is constructed, the other two when the reader is read.
\<close>

definition stored_reader :: "byte list \<Rightarrow> reader" where
  "stored_reader b =
     (case b of
        [] \<Rightarrow> \<lparr>data = [], fail = Some (ErrorString ''unexpected EOF'')\<rparr>
      | n # payload \<Rightarrow>
          \<lparr>data = take (unat n) payload,
           fail = (if length payload < unat n then Some (ErrorString ''unexpected EOF'')
                   else None)\<rparr>)"

definition stored_lib :: lib where
  "stored_lib =
     \<lparr>unicode_ToLower = (\<lambda>s. s),
      gzip_NewReader = (\<lambda>b. if take 2 b = [0x1f, 0x8b] then Inr (stored_reader (drop 2 b))
                             else Inl (ErrorString ''gzip: invalid header'')),
      bzip2_NewReader = (\<lambda>b. if take 2 b = [0x42, 0x5a] then stored_reader (drop 2 b)
                              else \<lparr>data = [], fail = Some (ErrorString ''bzip2 data invalid: bad magic value'')\<rparr>),
      zstd_NewReader = (\<lambda>b. Inr (if take 4 b = [0x28, 0xb5, 0x2f, 0xfd] then stored_reader (drop 4 b)
                                  else \<lparr>data = [], fail = Some (ErrorString ''invalid input: magic number mismatch'')\<rparr>))\<rparr>"

text \<open>
  A second library, with an encoder that it inverts on every input: each format is its
  magic number followed by the payload as it is.
\<close>

definition raw_encode :: "string \<Rightarrow> byte list \<Rightarrow> byte list" where
  "raw_encode enc x =
     (if enc = ''gzip'' then [0x1f, 0x8b]
      else if enc = ''bz2'' then [0x42, 0x5a]
      else [0x28, 0xb5, 0x2f, 0xfd]) @ x"

definition raw_lib :: lib where
  "raw_lib =
     \<lparr>unicode_ToLower = (\<lambda>s. s),
      gzip_NewReader = (\<lambda>b. if take 2 b = [0x1f, 0x8b] then Inr (bytes_NewReader (drop 2 b))
                             else Inl (ErrorString ''gzip: invalid header'')),
      bzip2_NewReader = (\<lambda>b. if take 2 b = [0x42, 0x5a] then bytes_NewReader (drop 2 b)
                              else \<lparr>data = [], fail = Some (ErrorString ''bzip2 data invalid: bad magic value'')\<rparr>),
      zstd_NewReader = (\<lambda>b. Inr (if take 4 b = [0x28, 0xb5, 0x2f, 0xfd] then bytes_NewReader (drop 4 b)
                                  else \<lparr>data = [], fail = Some (ErrorString ''invalid input: magic number mismatch'')\<rparr>))\<rparr>"

text \<open>A provisioned middleware, and two handlers to stand for the rest of the chain.\<close>

definition provisioned :: "unit Middleware" where
  "provisioned = fst (Provision \<lparr>logger = None, metrics = None\<rparr> ())"

definition accept :: "unit Handler" where
  "accept wd = (None, wd)"

definition refuse :: "unit Handler" where
  "refuse wd = (Some (HandlerError 400 (ErrorString ''malformed JSON'')), wd)"

text \<open>A request with one \<^verbatim>\<open>Content-Encoding\<close> value and a body, and one without the header.\<close>

definition encoded_request :: "string \<Rightarrow> reader \<Rightarrow> unit world" where
  "encoded_request v rd =
     \<lparr>writer = (),
      request = \<lparr>Header = [''Content-Encoding'' \<mapsto> [v]], Body = 0,
                 ContentLength = of_nat (length (data rd))\<rparr>,
      readers = [rd]\<rparr>"

definition plain_request :: "reader \<Rightarrow> unit world" where
  "plain_request rd =
     \<lparr>writer = (),
      request = \<lparr>Header = [''Content-Type'' \<mapsto> [''application/json'']], Body = 0,
                 ContentLength = of_nat (length (data rd))\<rparr>,
      readers = [rd]\<rparr>"

text \<open>The metrics as \<^verbatim>\<open>Provision\<close> makes them, and the two bytes \<^verbatim>\<open>hi\<close> in the gzip stand-in.\<close>

definition zero_metrics :: DecompressionMetrics where
  "zero_metrics = \<lparr>TotalRequests = 0, SuccessfulRequests = 0, FailedRequests = 0,
                    DecompressionTimings = 0, RequestsByCompression = Map.empty\<rparr>"

definition gzip_hi :: "byte list" where
  "gzip_hi = [0x1f, 0x8b, 2, 0x68, 0x69]"

text \<open>
  A gzip request for \<^verbatim>\<open>hi\<close>, the world that \<^verbatim>\<open>next\<close> is given for it, and the
  middleware after it; a request with the unsupported token \<^verbatim>\<open>deflate\<close>.
\<close>

definition hi_request :: "unit world" where
  "hi_request = encoded_request ''gzip'' (bytes_NewReader gzip_hi)"

definition hi_decoded :: "unit world" where
  "hi_decoded =
     \<lparr>writer = (),
      request = \<lparr>Header = Map.empty, Body = 1, ContentLength = 2\<rparr>,
      readers = [bytes_NewReader [], bytes_NewReader [0x68, 0x69]]\<rparr>"

definition hi_counted :: "unit Middleware" where
  "hi_counted =
     provisioned\<lparr>metrics := Some (zero_metrics\<lparr>TotalRequests := 1, SuccessfulRequests := 1,
                                   RequestsByCompression := [''gzip'' \<mapsto> 1]\<rparr>)\<rparr>"

definition deflate_request :: "unit world" where
  "deflate_request = encoded_request ''deflate'' (bytes_NewReader [0x78, 0x9c])"

definition deflate_counted :: "unit Middleware" where
  "deflate_counted =
     provisioned\<lparr>metrics := Some (zero_metrics\<lparr>TotalRequests := 1, FailedRequests := 1,
                                   RequestsByCompression := [''deflate'' \<mapsto> 1]\<rparr>)\<rparr>"

section \<open>The paths of ServeHTTP\<close>

text \<open>One lemma for each way through \<^verbatim>\<open>ServeHTTP\<close>.\<close>

lemmas ServeHTTP_unfold =
  ServeHTTP_def Let_def io_ReadAll_def atomic_AddInt64_def
  bytes_NewReader_def Header_Del_def fmt_Errorf_s_def

lemma caddyhttp_Error_ErrorString:
  "caddyhttp_Error StatusBadRequest (ErrorString s) = HandlerError 400 (ErrorString s)"
  by (simp add: caddyhttp_Error_def StatusBadRequest_def)

lemma caddyhttp_Error_cases:
  "caddyhttp_Error StatusBadRequest e =
     (case errors_As e of
        None \<Rightarrow> HandlerError 400 e
      | Some (code, inner) \<Rightarrow> HandlerError (if code = 0 then 400 else code) inner)"
  by (simp add: caddyhttp_Error_def StatusBadRequest_def split: option.splits)

lemma strings_ToLower_Nil: "strings_ToLower L '''' = ''''"
  by (simp add: strings_ToLower_def isASCII_def)

lemma token_header:
  "token L wd \<noteq> '''' \<Longrightarrow> Header_Get (Header (request wd)) ''Content-Encoding'' \<noteq> ''''"
  by (auto simp: strings_ToLower_Nil)

lemma Header_Get_absent: "h key = None \<Longrightarrow> Header_Get h key = ''''"
  by (simp add: Header_Get_def)

lemma ServeHTTP_passthrough:
  "Header_Get (Header (request wd)) ''Content-Encoding'' = '''' \<Longrightarrow>
   ServeHTTP L m next wd = (case next wd of (out, wd') \<Rightarrow> Return (out, m, wd'))"
  by (simp add: ServeHTTP_def)

lemma ServeHTTP_unprovisioned:
  "Header_Get (Header (request wd)) ''Content-Encoding'' \<noteq> '''' \<Longrightarrow> metrics m = None \<Longrightarrow>
   ServeHTTP L m next wd = Panic"
  by (simp add: ServeHTTP_def)

lemma ServeHTTP_nil_body:
  assumes "Header_Get (Header (request wd)) ''Content-Encoding'' \<noteq> ''''"
    and "metrics m = Some ms"
    and "length (readers wd) \<le> Body (request wd)"
  shows "ServeHTTP L m next wd = Panic"
  using assms by (cases "RequestsByCompression ms (token L wd)") (simp_all add: ServeHTTP_unfold)

lemma ServeHTTP_read_failed:
  assumes "Header_Get (Header (request wd)) ''Content-Encoding'' \<noteq> ''''"
    and "metrics m = Some ms"
    and "Body (request wd) < length (readers wd)"
    and "fail (body_reader wd) = Some e"
  shows "ServeHTTP L m next wd = rejected m ms (token L wd) wd e"
  using assms by (cases "RequestsByCompression ms (token L wd)") (simp_all add: ServeHTTP_unfold)

lemma ServeHTTP_unsupported:
  assumes "Header_Get (Header (request wd)) ''Content-Encoding'' \<noteq> ''''"
    and "metrics m = Some ms"
    and "Body (request wd) < length (readers wd)"
    and "fail (body_reader wd) = None"
    and "token L wd = enc"
    and "enc \<noteq> ''gzip''" "enc \<noteq> ''bz2''" "enc \<noteq> ''zstd''"
  shows "ServeHTTP L m next wd =
         rejected m ms enc wd (ErrorString (''unsupported Content-Encoding: '' @ enc))"
  using assms by (cases "RequestsByCompression ms enc") (simp_all add: ServeHTTP_unfold)

lemma ServeHTTP_gzip_construction:
  assumes "metrics m = Some ms"
    and "Body (request wd) < length (readers wd)"
    and "fail (body_reader wd) = None"
    and "token L wd = ''gzip''"
    and "gzip_NewReader L (data (body_reader wd)) = Inl e"
  shows "ServeHTTP L m next wd = rejected m ms ''gzip'' wd e"
proof -
  have "Header_Get (Header (request wd)) ''Content-Encoding'' \<noteq> ''''"
    using assms(4) token_header [of L wd] by simp
  with assms show ?thesis
    by (cases "RequestsByCompression ms ''gzip''") (simp_all add: ServeHTTP_unfold)
qed

lemma ServeHTTP_zstd_construction:
  assumes "metrics m = Some ms"
    and "Body (request wd) < length (readers wd)"
    and "fail (body_reader wd) = None"
    and "token L wd = ''zstd''"
    and "zstd_NewReader L (data (body_reader wd)) = Inl e"
  shows "ServeHTTP L m next wd = rejected m ms ''zstd'' wd e"
proof -
  have "Header_Get (Header (request wd)) ''Content-Encoding'' \<noteq> ''''"
    using assms(4) token_header [of L wd] by simp
  with assms show ?thesis
    by (cases "RequestsByCompression ms ''zstd''") (simp_all add: ServeHTTP_unfold)
qed

lemma ServeHTTP_bz2_drain_failed:
  assumes "metrics m = Some ms"
    and "Body (request wd) < length (readers wd)"
    and "fail (body_reader wd) = None"
    and "token L wd = ''bz2''"
    and "fail (bzip2_NewReader L (data (body_reader wd))) = Some e"
  shows "ServeHTTP L m next wd = rejected m ms ''bz2'' wd e"
proof -
  have "Header_Get (Header (request wd)) ''Content-Encoding'' \<noteq> ''''"
    using assms(4) token_header [of L wd] by simp
  with assms show ?thesis
    by (cases "RequestsByCompression ms ''bz2''") (simp_all add: ServeHTTP_unfold)
qed

text \<open>
  A constructed decoder whose drain error is not seen: always for \<^verbatim>\<open>gzip\<close> and
  \<^verbatim>\<open>zstd\<close>, and for \<^verbatim>\<open>bz2\<close> when there is none.
\<close>

lemma ServeHTTP_drained:
  assumes "metrics m = Some ms"
    and "Body (request wd) < length (readers wd)"
    and "fail (body_reader wd) = None"
    and "token L wd = enc"
    and "constructs L enc (data (body_reader wd)) rd"
    and "enc = ''bz2'' \<longrightarrow> fail rd = None"
  shows "ServeHTTP L m next wd = forwarded m ms enc next wd (data rd)"
proof -
  from assms(5) have "enc \<noteq> ''''" by auto
  with assms(4) have hdr: "Header_Get (Header (request wd)) ''Content-Encoding'' \<noteq> ''''"
    using token_header [of L wd] by simp
  from assms(5) consider
      (gzip) "enc = ''gzip''" "gzip_NewReader L (data (body_reader wd)) = Inr rd"
    | (bz2) "enc = ''bz2''" "bzip2_NewReader L (data (body_reader wd)) = rd"
    | (zstd) "enc = ''zstd''" "zstd_NewReader L (data (body_reader wd)) = Inr rd"
    by blast
  then show ?thesis
  proof cases
    case gzip
    with assms(1-4) hdr show ?thesis
      by (cases "RequestsByCompression ms ''gzip''") (simp_all add: ServeHTTP_unfold)
  next
    case bz2
    with assms(1-4,6) hdr show ?thesis
      by (cases "RequestsByCompression ms ''bz2''") (simp_all add: ServeHTTP_unfold)
  next
    case zstd
    with assms(1-4) hdr show ?thesis
      by (cases "RequestsByCompression ms ''zstd''") (simp_all add: ServeHTTP_unfold)
  qed
qed

text \<open>
  Together: a call with a non-empty header, on a provisioned middleware and a body that
  is not \<^verbatim>\<open>nil\<close>, ends in a rejection or in the call of \<^verbatim>\<open>next\<close> on a decoded request;
  and a call that returns has taken one of three ways.
\<close>

lemma ServeHTTP_served:
  assumes hdr: "Header_Get (Header (request wd)) ''Content-Encoding'' \<noteq> ''''"
    and prov: "metrics m = Some ms"
    and body: "Body (request wd) < length (readers wd)"
  shows "(\<exists>e. ServeHTTP L m next wd = rejected m ms (token L wd) wd e)
       \<or> (\<exists>d. ServeHTTP L m next wd = forwarded m ms (token L wd) next wd d)"
proof (cases "fail (body_reader wd)")
  case (Some e)
  with hdr prov body have "ServeHTTP L m next wd = rejected m ms (token L wd) wd e"
    by (rule ServeHTTP_read_failed)
  then show ?thesis by blast
next
  case None
  note facts = prov body None
  let ?b = "data (body_reader wd)"
  have drained: ?thesis
    if "constructs L (token L wd) ?b rd" and "token L wd = ''bz2'' \<longrightarrow> fail rd = None" for rd
  proof -
    have "ServeHTTP L m next wd = forwarded m ms (token L wd) next wd (data rd)"
      using facts refl that by (rule ServeHTTP_drained)
    then show ?thesis by blast
  qed
  consider (gzip) "token L wd = ''gzip''" | (bz2) "token L wd = ''bz2''"
    | (zstd) "token L wd = ''zstd''"
    | (other) "token L wd \<noteq> ''gzip''" "token L wd \<noteq> ''bz2''" "token L wd \<noteq> ''zstd''"
    by blast
  then show ?thesis
  proof cases
    case gzip
    show ?thesis
    proof (cases "gzip_NewReader L ?b")
      case (Inl e)
      with facts gzip have "ServeHTTP L m next wd = rejected m ms ''gzip'' wd e"
        by (rule ServeHTTP_gzip_construction)
      with gzip show ?thesis by auto
    next
      case (Inr rd)
      with gzip show ?thesis by (intro drained [of rd]) simp_all
    qed
  next
    case bz2
    show ?thesis
    proof (cases "fail (bzip2_NewReader L ?b)")
      case None
      with bz2 show ?thesis by (intro drained [of "bzip2_NewReader L ?b"]) simp_all
    next
      case (Some e)
      with facts bz2 have "ServeHTTP L m next wd = rejected m ms ''bz2'' wd e"
        by (rule ServeHTTP_bz2_drain_failed)
      with bz2 show ?thesis by auto
    qed
  next
    case zstd
    show ?thesis
    proof (cases "zstd_NewReader L ?b")
      case (Inl e)
      with facts zstd have "ServeHTTP L m next wd = rejected m ms ''zstd'' wd e"
        by (rule ServeHTTP_zstd_construction)
      with zstd show ?thesis by auto
    next
      case (Inr rd)
      with zstd show ?thesis by (intro drained [of rd]) simp_all
    qed
  next
    case other
    with hdr facts refl
    have "ServeHTTP L m next wd = rejected m ms (token L wd) wd
            (ErrorString (''unsupported Content-Encoding: '' @ token L wd))"
      by (rule ServeHTTP_unsupported)
    then show ?thesis by blast
  qed
qed

lemma ServeHTTP_Return_cases [consumes 1, case_names passthrough rejected forwarded]:
  assumes ret: "ServeHTTP L m next wd = Return (out, m', wd')"
  obtains
    (passthrough) "Header_Get (Header (request wd)) ''Content-Encoding'' = ''''"
      and "next wd = (out, wd')" and "m' = m"
  | (rejected) ms e where "Header_Get (Header (request wd)) ''Content-Encoding'' \<noteq> ''''"
      and "metrics m = Some ms" and "out = Some (caddyhttp_Error StatusBadRequest e)"
      and "m' = m\<lparr>metrics := Some ((seen (token L wd) ms)
                    \<lparr>FailedRequests := FailedRequests ms + 1\<rparr>)\<rparr>"
      and "wd' = body_read wd"
  | (forwarded) ms d where "Header_Get (Header (request wd)) ''Content-Encoding'' \<noteq> ''''"
      and "metrics m = Some ms" and "next (decoded wd d) = (out, wd')"
      and "m' = m\<lparr>metrics := Some ((seen (token L wd) ms)
                    \<lparr>SuccessfulRequests := SuccessfulRequests ms + 1\<rparr>)\<rparr>"
proof (cases "Header_Get (Header (request wd)) ''Content-Encoding'' = ''''")
  case True
  then have "ServeHTTP L m next wd = (case next wd of (out, wd') \<Rightarrow> Return (out, m, wd'))"
    by (rule ServeHTTP_passthrough)
  with ret have "next wd = (out, wd')" "m' = m"
    by (auto split: prod.splits)
  with True show thesis by (rule passthrough)
next
  case hdr: False
  show thesis
  proof (cases "metrics m")
    case None
    with hdr have "ServeHTTP L m next wd = Panic" by (rule ServeHTTP_unprovisioned)
    with ret show thesis by simp
  next
    case (Some ms)
    show thesis
    proof (cases "Body (request wd) < length (readers wd)")
      case False
      with hdr Some have "ServeHTTP L m next wd = Panic"
        by (intro ServeHTTP_nil_body) simp_all
      with ret show thesis by simp
    next
      case True
      with hdr Some consider
          (rej) e where "ServeHTTP L m next wd = rejected m ms (token L wd) wd e"
        | (fwd) d where "ServeHTTP L m next wd = forwarded m ms (token L wd) next wd d"
        using ServeHTTP_served [of wd m ms L "next"] by blast
      then show thesis
      proof cases
        case rej
        with ret hdr Some show thesis by (intro rejected [of ms e]) simp_all
      next
        case fwd
        with ret have "next (decoded wd d) = (out, wd')"
          "m' = m\<lparr>metrics := Some ((seen (token L wd) ms)
                    \<lparr>SuccessfulRequests := SuccessfulRequests ms + 1\<rparr>)\<rparr>"
          by (auto split: prod.splits)
        with hdr Some show thesis by (intro forwarded [of ms d])
      qed
    qed
  qed
qed

subsection \<open>Facts about the concrete instances and about \<^verbatim>\<open>int64\<close>\<close>

lemma sint_length:
  "n < 2 ^ 63 \<Longrightarrow> sint (of_nat n :: int64) = int n"
  by (simp add: signed_of_nat signed_take_bit_int_eq_self)

lemma metrics_provisioned: "metrics provisioned = Some zero_metrics"
  by (simp add: provisioned_def Provision_def zero_metrics_def)

lemma token_encoded_request_lower:
  "token L (encoded_request ''gzip'' rd) = ''gzip''"
  "token L (encoded_request ''bz2'' rd) = ''bz2''"
  "token L (encoded_request ''zstd'' rd) = ''zstd''"
  "token L (encoded_request ''deflate'' rd) = ''deflate''"
  by (simp_all add: encoded_request_def Header_Get_def strings_ToLower_def isASCII_def lower_byte_def)

lemma ServeHTTP_hi_request:
  "ServeHTTP stored_lib provisioned h hi_request =
     (case h hi_decoded of (out, wd') \<Rightarrow> Return (out, hi_counted, wd'))"
proof -
  let ?rd = "\<lparr>data = [0x68, 0x69], fail = None\<rparr> :: reader"
  have "token stored_lib hi_request = ''gzip''"
    unfolding hi_request_def by (rule token_encoded_request_lower)
  moreover have "constructs stored_lib ''gzip'' (data (body_reader hi_request)) ?rd"
    by (simp add: hi_request_def encoded_request_def bytes_NewReader_def gzip_hi_def
          stored_lib_def stored_reader_def)
  moreover have "Body (request hi_request) < length (readers hi_request)"
    "fail (body_reader hi_request) = None"
    by (simp_all add: hi_request_def encoded_request_def bytes_NewReader_def)
  ultimately have "ServeHTTP stored_lib provisioned h hi_request =
      forwarded provisioned zero_metrics ''gzip'' h hi_request (data ?rd)"
    using metrics_provisioned by (intro ServeHTTP_drained) simp_all
  then show ?thesis
    by (simp add: hi_request_def hi_decoded_def hi_counted_def encoded_request_def
          bytes_NewReader_def zero_metrics_def gzip_hi_def)
qed

lemma ServeHTTP_deflate_request:
  "ServeHTTP stored_lib provisioned h deflate_request =
     Return (Some (HandlerError 400 (ErrorString ''unsupported Content-Encoding: deflate'')),
             deflate_counted, deflate_request\<lparr>readers := [bytes_NewReader []]\<rparr>)"
proof -
  have tok: "token stored_lib deflate_request = ''deflate''"
    unfolding deflate_request_def by (rule token_encoded_request_lower)
  then have "Header_Get (Header (request deflate_request)) ''Content-Encoding'' \<noteq> ''''"
    using token_header [of stored_lib deflate_request] by simp
  moreover have "Body (request deflate_request) < length (readers deflate_request)"
    "fail (body_reader deflate_request) = None"
    by (simp_all add: deflate_request_def encoded_request_def bytes_NewReader_def)
  ultimately have "ServeHTTP stored_lib provisioned h deflate_request =
      rejected provisioned zero_metrics ''deflate'' deflate_request
        (ErrorString (''unsupported Content-Encoding: '' @ ''deflate''))"
    using metrics_provisioned tok by (intro ServeHTTP_unsupported) simp_all
  then show ?thesis
    by (simp add: caddyhttp_Error_ErrorString deflate_request_def deflate_counted_def
          encoded_request_def bytes_NewReader_def zero_metrics_def)
qed

lemma codec_roundtrip_raw: "codec_roundtrip raw_lib raw_encode"
  by (simp add: codec_roundtrip_def raw_lib_def raw_encode_def io_ReadAll_def bytes_NewReader_def)

lemma codec_roundtrip_constructs:
  assumes "codec_roundtrip L encode"
    and "enc = ''gzip'' \<or> enc = ''bz2'' \<or> enc = ''zstd''"
  shows "\<exists>rd. constructs L enc (encode enc x) rd \<and> data rd = x \<and> fail rd = None"
proof -
  from assms(1) have rt:
    "case gzip_NewReader L (encode ''gzip'' x) of
       Inl e \<Rightarrow> False | Inr rd \<Rightarrow> fst (io_ReadAll rd) = (x, None)"
    "fst (io_ReadAll (bzip2_NewReader L (encode ''bz2'' x))) = (x, None)"
    "case zstd_NewReader L (encode ''zstd'' x) of
       Inl e \<Rightarrow> False | Inr rd \<Rightarrow> fst (io_ReadAll rd) = (x, None)"
    by (simp_all add: codec_roundtrip_def)
  from assms(2) consider (gzip) "enc = ''gzip''" | (bz2) "enc = ''bz2''" | (zstd) "enc = ''zstd''"
    by blast
  then show ?thesis
  proof cases
    case gzip
    with rt(1) show ?thesis by (auto simp: io_ReadAll_def split: sum.splits)
  next
    case bz2
    with rt(2) show ?thesis by (auto simp: io_ReadAll_def)
  next
    case zstd
    with rt(3) show ?thesis by (auto simp: io_ReadAll_def split: sum.splits)
  qed
qed

section \<open>The claims\<close>

text \<open>
  In the theorems below, \<open>metrics m = Some ms\<close> says that \<^verbatim>\<open>Provision\<close> has run (the
  pointer \<^verbatim>\<open>m.metrics\<close> is not \<^verbatim>\<open>nil\<close>), and \<open>Body (request wd) < length (readers wd)\<close>
  that \<^verbatim>\<open>r.Body\<close> is not \<^verbatim>\<open>nil\<close>, as for every request that \<^verbatim>\<open>net/http\<close> hands to a
  handler.
\<close>

text \<open>
  C1. A request whose lower-cased \<^verbatim>\<open>Content-Encoding\<close> is \<^verbatim>\<open>gzip\<close>, \<^verbatim>\<open>bz2\<close> or
  \<^verbatim>\<open>zstd\<close> and whose body is read, gets its decoder constructed and is drained without
  error to the bytes \<open>d\<close>: \<^verbatim>\<open>ServeHTTP\<close> increments the success counter (after the total
  and the per-token counter), makes \<^verbatim>\<open>r.Body\<close> a new reader over \<open>d\<close> (a reference that
  did not exist before, so not the old body), deletes the \<^verbatim>\<open>Content-Encoding\<close> header,
  sets \<^verbatim>\<open>ContentLength\<close> to the length of \<open>d\<close> (as an \<^verbatim>\<open>int64\<close>: exactly the length,
  a Go slice having fewer than \<open>2 ^ 63\<close> elements), calls \<^verbatim>\<open>next\<close> on the request so
  changed and returns what \<^verbatim>\<open>next\<close> returns.
\<close>

theorem decoded_request_forwarded:
  assumes "metrics m = Some ms"
    and "Body (request wd) < length (readers wd)"
    and "fail (body_reader wd) = None"
    and "token L wd = enc"
    and "constructs L enc (data (body_reader wd)) rd"
    and "fail rd = None"
    and "data rd = d"
  shows "ServeHTTP L m next wd =
           (case next (decoded wd d) of (out, wd') \<Rightarrow>
              Return (out,
                      m\<lparr>metrics := Some ((seen enc ms)
                            \<lparr>SuccessfulRequests := SuccessfulRequests ms + 1\<rparr>)\<rparr>,
                      wd'))
         \<and> Body (request (decoded wd d)) \<noteq> Body (request wd)
         \<and> body_reader (decoded wd d) = bytes_NewReader d
         \<and> Header (request (decoded wd d)) = Header_Del (Header (request wd)) ''Content-Encoding''
         \<and> Header_Get (Header (request (decoded wd d))) ''Content-Encoding'' = ''''
         \<and> ContentLength (request (decoded wd d)) = of_nat (length d)
         \<and> (length d < 2 ^ 63 \<longrightarrow> sint (ContentLength (request (decoded wd d))) = int (length d))"
proof -
  have "ServeHTTP L m next wd = forwarded m ms enc next wd (data rd)"
    using assms(1-5) by (rule ServeHTTP_drained) (simp add: assms(6))
  moreover have "Body (request (decoded wd d)) \<noteq> Body (request wd)"
    using assms(2) by simp
  moreover have "body_reader (decoded wd d) = bytes_NewReader d"
    by (simp add: bytes_NewReader_def nth_append)
  moreover have "Header (request (decoded wd d)) = Header_Del (Header (request wd)) ''Content-Encoding''"
    by (simp add: Header_Del_def)
  moreover have "Header_Get (Header (request (decoded wd d))) ''Content-Encoding'' = ''''"
    by (simp add: Header_Get_def)
  moreover have "length d < 2 ^ 63 \<longrightarrow> sint (ContentLength (request (decoded wd d))) = int (length d)"
    by (simp add: sint_length)
  ultimately show ?thesis
    using assms(7) by simp
qed

theorem decoded_request_forwarded_witness:
  "metrics provisioned = Some zero_metrics
   \<and> fail (body_reader (encoded_request ''gzip'' (bytes_NewReader gzip_hi))) = None
   \<and> token stored_lib (encoded_request ''gzip'' (bytes_NewReader gzip_hi)) = ''gzip''
   \<and> gzip_NewReader stored_lib gzip_hi = Inr \<lparr>data = [0x68, 0x69], fail = None\<rparr>
   \<and> ServeHTTP stored_lib provisioned accept (encoded_request ''gzip'' (bytes_NewReader gzip_hi))
       = Return (None,
                 provisioned\<lparr>metrics := Some (zero_metrics\<lparr>TotalRequests := 1,
                    SuccessfulRequests := 1, RequestsByCompression := [''gzip'' \<mapsto> 1]\<rparr>)\<rparr>,
                 \<lparr>writer = (),
                  request = \<lparr>Header = Map.empty, Body = 1, ContentLength = 2\<rparr>,
                  readers = [\<lparr>data = [], fail = None\<rparr>, \<lparr>data = [0x68, 0x69], fail = None\<rparr>]\<rparr>)"
proof -
  let ?wd = "encoded_request ''gzip'' (bytes_NewReader gzip_hi)"
  have h1: "metrics provisioned = Some zero_metrics" by (rule metrics_provisioned)
  have h2: "Body (request ?wd) < length (readers ?wd)" by (simp add: encoded_request_def)
  have h3: "fail (body_reader ?wd) = None" by (simp add: encoded_request_def bytes_NewReader_def)
  have h4: "token stored_lib ?wd = ''gzip''" by (rule token_encoded_request_lower)
  have h5: "gzip_NewReader stored_lib gzip_hi = Inr \<lparr>data = [0x68, 0x69], fail = None\<rparr>"
    by (simp add: stored_lib_def gzip_hi_def stored_reader_def)
  have h6: "constructs stored_lib ''gzip'' (data (body_reader ?wd)) \<lparr>data = [0x68, 0x69], fail = None\<rparr>"
    using h5 by (simp add: encoded_request_def bytes_NewReader_def)
  from decoded_request_forwarded [OF h1 h2 h3 h4 h6, of "[0x68, 0x69]" accept]
  have "ServeHTTP stored_lib provisioned accept ?wd =
           (case accept (decoded ?wd [0x68, 0x69]) of (out, wd') \<Rightarrow>
              Return (out,
                      provisioned\<lparr>metrics := Some ((seen ''gzip'' zero_metrics)
                            \<lparr>SuccessfulRequests := SuccessfulRequests zero_metrics + 1\<rparr>)\<rparr>,
                      wd'))"
    by simp
  then show ?thesis
    using h1 h3 h4 h5
    by (simp add: accept_def zero_metrics_def encoded_request_def bytes_NewReader_def)
qed

text \<open>
  C4. A request whose \<^verbatim>\<open>Content-Encoding\<close> header is absent or empty: \<^verbatim>\<open>ServeHTTP\<close>
  is the call of \<^verbatim>\<open>next\<close> on the world as it was given (request, readers and writer
  untouched), and returns with the middleware, so its metrics, unchanged. This holds
  whether or not the middleware is provisioned.
\<close>

theorem no_encoding_passthrough:
  assumes "Header (request wd) ''Content-Encoding'' = None
           \<or> Header_Get (Header (request wd)) ''Content-Encoding'' = ''''"
  shows "ServeHTTP L m next wd = (case next wd of (out, wd') \<Rightarrow> Return (out, m, wd'))"
proof -
  from assms have "Header_Get (Header (request wd)) ''Content-Encoding'' = ''''"
    by (auto simp: Header_Get_absent)
  then show ?thesis by (rule ServeHTTP_passthrough)
qed

theorem no_encoding_passthrough_witness:
  "Header (request (plain_request \<lparr>data = [1, 2, 3], fail = None\<rparr>)) ''Content-Encoding'' = None
   \<and> ServeHTTP stored_lib provisioned accept (plain_request \<lparr>data = [1, 2, 3], fail = None\<rparr>)
       = Return (None, provisioned, plain_request \<lparr>data = [1, 2, 3], fail = None\<rparr>)"
proof -
  have h: "Header (request (plain_request \<lparr>data = [1, 2, 3], fail = None\<rparr>)) ''Content-Encoding'' = None"
    by (simp add: plain_request_def)
  then show ?thesis
    using no_encoding_passthrough [of "plain_request \<lparr>data = [1, 2, 3], fail = None\<rparr>" stored_lib provisioned accept]
    by (simp add: accept_def)
qed

text \<open>
  C2. Round trip. Let the codecs keep their contract (\<open>codec_roundtrip\<close>: each decoder
  of \<open>L\<close> gives back what the encoder was given, for every input). Then for every
  plaintext \<open>x\<close> and each of the tokens \<^verbatim>\<open>gzip\<close>, \<^verbatim>\<open>bz2\<close>, \<^verbatim>\<open>zstd\<close>, a request whose body
  is \<open>x\<close> encoded for its token reaches \<^verbatim>\<open>next\<close> with a body that reads as \<open>x\<close>,
  without \<^verbatim>\<open>Content-Encoding\<close> header, and with \<^verbatim>\<open>ContentLength\<close> the length of \<open>x\<close>;
  \<^verbatim>\<open>ServeHTTP\<close> returns what \<^verbatim>\<open>next\<close> returns.
\<close>

theorem compressed_body_roundtrip:
  assumes "codec_roundtrip L encode"
    and "enc = ''gzip'' \<or> enc = ''bz2'' \<or> enc = ''zstd''"
    and "metrics m = Some ms"
    and "Body (request wd) < length (readers wd)"
    and "token L wd = enc"
    and "data (body_reader wd) = encode enc x"
    and "fail (body_reader wd) = None"
  shows "\<exists>ms'. ServeHTTP L m next wd =
             (case next (decoded wd x) of (out, wd') \<Rightarrow>
                Return (out, m\<lparr>metrics := Some ms'\<rparr>, wd'))
         \<and> fst (io_ReadAll (body_reader (decoded wd x))) = (x, None)
         \<and> Header (request (decoded wd x)) ''Content-Encoding'' = None
         \<and> ContentLength (request (decoded wd x)) = of_nat (length x)
         \<and> (length x < 2 ^ 63 \<longrightarrow> sint (ContentLength (request (decoded wd x))) = int (length x))"
proof -
  from codec_roundtrip_constructs [OF assms(1,2), of x]
  obtain rd where built: "constructs L enc (data (body_reader wd)) rd"
    and rd: "data rd = x" "fail rd = None"
    by (auto simp: assms(6))
  have "ServeHTTP L m next wd = forwarded m ms enc next wd (data rd)"
    using assms(3,4,7,5) built by (rule ServeHTTP_drained) (simp add: rd)
  then have run: "ServeHTTP L m next wd = forwarded m ms enc next wd x"
    by (simp add: rd)
  have body: "fst (io_ReadAll (body_reader (decoded wd x))) = (x, None)"
    by (simp add: io_ReadAll_def nth_append)
  have len: "length x < 2 ^ 63 \<longrightarrow> sint (ContentLength (request (decoded wd x))) = int (length x)"
    by (simp add: sint_length)
  from run body len show ?thesis
    by (intro exI [of _ "(seen enc ms)\<lparr>SuccessfulRequests := SuccessfulRequests ms + 1\<rparr>"]) simp
qed

theorem compressed_body_roundtrip_witness:
  "codec_roundtrip raw_lib raw_encode
   \<and> token raw_lib (encoded_request ''zstd''
        (bytes_NewReader (raw_encode ''zstd'' [0x61, 0x62, 0x63]))) = ''zstd''
   \<and> (\<exists>ms'. ServeHTTP raw_lib provisioned accept
          (encoded_request ''zstd'' (bytes_NewReader (raw_encode ''zstd'' [0x61, 0x62, 0x63])))
        = Return (None, provisioned\<lparr>metrics := Some ms'\<rparr>,
            \<lparr>writer = (),
             request = \<lparr>Header = Map.empty, Body = 1, ContentLength = 3\<rparr>,
             readers = [\<lparr>data = [], fail = None\<rparr>, \<lparr>data = [0x61, 0x62, 0x63], fail = None\<rparr>]\<rparr>))"
proof -
  let ?x = "[0x61, 0x62, 0x63] :: byte list"
  let ?wd = "encoded_request ''zstd'' (bytes_NewReader (raw_encode ''zstd'' ?x))"
  have h0: "codec_roundtrip raw_lib raw_encode" by (rule codec_roundtrip_raw)
  have h1: "''zstd'' = ''gzip'' \<or> ''zstd'' = ''bz2'' \<or> ''zstd'' = ''zstd''" by simp
  have h2: "metrics provisioned = Some zero_metrics" by (rule metrics_provisioned)
  have h3: "Body (request ?wd) < length (readers ?wd)" by (simp add: encoded_request_def)
  have h4: "token raw_lib ?wd = ''zstd''" by (rule token_encoded_request_lower)
  have h5: "data (body_reader ?wd) = raw_encode ''zstd'' ?x"
    by (simp add: encoded_request_def bytes_NewReader_def)
  have h6: "fail (body_reader ?wd) = None" by (simp add: encoded_request_def bytes_NewReader_def)
  from compressed_body_roundtrip [OF h0 h1 h2 h3 h4 h5 h6, of accept]
  obtain ms' where "ServeHTTP raw_lib provisioned accept ?wd =
             (case accept (decoded ?wd ?x) of (out, wd') \<Rightarrow>
                Return (out, provisioned\<lparr>metrics := Some ms'\<rparr>, wd'))"
    by auto
  then have "ServeHTTP raw_lib provisioned accept ?wd
        = Return (None, provisioned\<lparr>metrics := Some ms'\<rparr>,
            \<lparr>writer = (),
             request = \<lparr>Header = Map.empty, Body = 1, ContentLength = 3\<rparr>,
             readers = [\<lparr>data = [], fail = None\<rparr>, \<lparr>data = ?x, fail = None\<rparr>]\<rparr>)"
    by (simp add: accept_def encoded_request_def bytes_NewReader_def raw_encode_def)
  then have "\<exists>ms'. ServeHTTP raw_lib provisioned accept ?wd
        = Return (None, provisioned\<lparr>metrics := Some ms'\<rparr>,
            \<lparr>writer = (),
             request = \<lparr>Header = Map.empty, Body = 1, ContentLength = 3\<rparr>,
             readers = [\<lparr>data = [], fail = None\<rparr>, \<lparr>data = ?x, fail = None\<rparr>]\<rparr>)"
    by (rule exI)
  with h0 h4 show ?thesis by (intro conjI)
qed

text \<open>
  C3 holds for \<^verbatim>\<open>bz2\<close> (see C7) and not for \<^verbatim>\<open>gzip\<close> and \<^verbatim>\<open>zstd\<close>. For these two
  the error of draining the decoder is assigned to the \<^verbatim>\<open>err\<close> of the \<^verbatim>\<open>case\<close> clause,
  and the test after the \<^verbatim>\<open>switch\<close> reads the function's \<^verbatim>\<open>err\<close>: when the decoder is
  constructed and draining it fails with \<open>e\<close>, \<^verbatim>\<open>ServeHTTP\<close> counts a success, no
  failure, and calls \<^verbatim>\<open>next\<close> on a request whose body is what the decoder delivered
  before it failed, returning what \<^verbatim>\<open>next\<close> returns.
\<close>

theorem drain_error_dropped:
  assumes "metrics m = Some ms"
    and "Body (request wd) < length (readers wd)"
    and "fail (body_reader wd) = None"
    and "token L wd = enc"
    and "(enc = ''gzip'' \<and> gzip_NewReader L (data (body_reader wd)) = Inr rd)
         \<or> (enc = ''zstd'' \<and> zstd_NewReader L (data (body_reader wd)) = Inr rd)"
    and "fail rd = Some e"
  shows "\<exists>ms'. ServeHTTP L m next wd =
             (case next (decoded wd (data rd)) of (out, wd') \<Rightarrow>
                Return (out, m\<lparr>metrics := Some ms'\<rparr>, wd'))
         \<and> SuccessfulRequests ms' = SuccessfulRequests ms + 1
         \<and> FailedRequests ms' = FailedRequests ms
         \<and> TotalRequests ms' = TotalRequests ms + 1"
proof -
  from assms(5) have "constructs L enc (data (body_reader wd)) rd" and "enc \<noteq> ''bz2''"
    by auto
  with assms(1-4) have "ServeHTTP L m next wd = forwarded m ms enc next wd (data rd)"
    by (intro ServeHTTP_drained) simp_all
  then show ?thesis
    by (intro exI [of _ "(seen enc ms)\<lparr>SuccessfulRequests := SuccessfulRequests ms + 1\<rparr>"])
       simp
qed

text \<open>
  A gzip stream that announces five bytes and breaks off after one: draining fails with
  \<^verbatim>\<open>unexpected EOF\<close>, and the one byte goes to \<^verbatim>\<open>next\<close> as the body, with
  \<^verbatim>\<open>ContentLength\<close> 1.
\<close>

theorem drain_error_dropped_witness:
  "token stored_lib (encoded_request ''gzip'' (bytes_NewReader [0x1f, 0x8b, 5, 0x68])) = ''gzip''
   \<and> gzip_NewReader stored_lib [0x1f, 0x8b, 5, 0x68]
       = Inr \<lparr>data = [0x68], fail = Some (ErrorString ''unexpected EOF'')\<rparr>
   \<and> (\<exists>ms'. ServeHTTP stored_lib provisioned accept
                (encoded_request ''gzip'' (bytes_NewReader [0x1f, 0x8b, 5, 0x68]))
              = Return (None, provisioned\<lparr>metrics := Some ms'\<rparr>,
                        \<lparr>writer = (),
                         request = \<lparr>Header = Map.empty, Body = 1, ContentLength = 1\<rparr>,
                         readers = [bytes_NewReader [], bytes_NewReader [0x68]]\<rparr>)
            \<and> SuccessfulRequests ms' = 1 \<and> FailedRequests ms' = 0)"
proof -
  let ?wd = "encoded_request ''gzip'' (bytes_NewReader [0x1f, 0x8b, 5, 0x68])"
  let ?rd = "\<lparr>data = [0x68], fail = Some (ErrorString ''unexpected EOF'')\<rparr>"
  have h1: "metrics provisioned = Some zero_metrics" by (rule metrics_provisioned)
  have h2: "Body (request ?wd) < length (readers ?wd)" by (simp add: encoded_request_def)
  have h3: "fail (body_reader ?wd) = None" by (simp add: encoded_request_def bytes_NewReader_def)
  have h4: "token stored_lib ?wd = ''gzip''" by (rule token_encoded_request_lower)
  have h5: "gzip_NewReader stored_lib [0x1f, 0x8b, 5, 0x68] = Inr ?rd"
    by (simp add: stored_lib_def stored_reader_def)
  then have h6: "(''gzip'' = ''gzip'' \<and> gzip_NewReader stored_lib (data (body_reader ?wd)) = Inr ?rd)
         \<or> (''gzip'' = ''zstd'' \<and> zstd_NewReader stored_lib (data (body_reader ?wd)) = Inr ?rd)"
    by (simp add: encoded_request_def bytes_NewReader_def)
  have h7: "fail ?rd = Some (ErrorString ''unexpected EOF'')" by simp
  from drain_error_dropped [OF h1 h2 h3 h4 h6 h7, of accept]
  obtain ms' where
    "ServeHTTP stored_lib provisioned accept ?wd =
       (case accept (decoded ?wd (data ?rd)) of (out, wd') \<Rightarrow>
          Return (out, provisioned\<lparr>metrics := Some ms'\<rparr>, wd'))"
    "SuccessfulRequests ms' = SuccessfulRequests zero_metrics + 1"
    "FailedRequests ms' = FailedRequests zero_metrics"
    by blast
  then have "ServeHTTP stored_lib provisioned accept ?wd
              = Return (None, provisioned\<lparr>metrics := Some ms'\<rparr>,
                        \<lparr>writer = (),
                         request = \<lparr>Header = Map.empty, Body = 1, ContentLength = 1\<rparr>,
                         readers = [bytes_NewReader [], bytes_NewReader [0x68]]\<rparr>)
            \<and> SuccessfulRequests ms' = 1 \<and> FailedRequests ms' = 0"
    by (simp add: accept_def zero_metrics_def encoded_request_def bytes_NewReader_def)
  then have "\<exists>ms'. ServeHTTP stored_lib provisioned accept ?wd
              = Return (None, provisioned\<lparr>metrics := Some ms'\<rparr>,
                        \<lparr>writer = (),
                         request = \<lparr>Header = Map.empty, Body = 1, ContentLength = 1\<rparr>,
                         readers = [bytes_NewReader [], bytes_NewReader [0x68]]\<rparr>)
            \<and> SuccessfulRequests ms' = 1 \<and> FailedRequests ms' = 0"
    by (rule exI)
  with h4 h5 show ?thesis by (intro conjI)
qed

text \<open>
  C5, as stated, fails: the body is read before the token is looked at, so an
  unsupported token on a request whose body cannot be read (here the client's upload
  breaks off after one byte) is answered with the read error, not with the
  \<^verbatim>\<open>unsupported Content-Encoding\<close> message.
\<close>

theorem unsupported_message_counterexample:
  "token stored_lib
     (encoded_request ''deflate'' \<lparr>data = [0x78], fail = Some (ErrorString ''unexpected EOF'')\<rparr>)
     = ''deflate''
   \<and> ServeHTTP stored_lib provisioned accept
       (encoded_request ''deflate'' \<lparr>data = [0x78], fail = Some (ErrorString ''unexpected EOF'')\<rparr>)
     = Return (Some (HandlerError 400 (ErrorString ''unexpected EOF'')),
               provisioned\<lparr>metrics := Some (zero_metrics\<lparr>TotalRequests := 1, FailedRequests := 1,
                  RequestsByCompression := [''deflate'' \<mapsto> 1]\<rparr>)\<rparr>,
               (encoded_request ''deflate'' \<lparr>data = [0x78], fail = Some (ErrorString ''unexpected EOF'')\<rparr>)
                 \<lparr>readers := [\<lparr>data = [], fail = Some (ErrorString ''unexpected EOF'')\<rparr>]\<rparr>)
   \<and> ErrorString ''unexpected EOF'' \<noteq> fmt_Errorf_s ''unsupported Content-Encoding: '' ''deflate''"
proof -
  let ?wd = "encoded_request ''deflate'' \<lparr>data = [0x78], fail = Some (ErrorString ''unexpected EOF'')\<rparr>"
  have tok: "token stored_lib ?wd = ''deflate''" by (rule token_encoded_request_lower)
  then have hdr: "Header_Get (Header (request ?wd)) ''Content-Encoding'' \<noteq> ''''"
    using token_header [of stored_lib ?wd] by simp
  have "ServeHTTP stored_lib provisioned accept ?wd
          = rejected provisioned zero_metrics (token stored_lib ?wd) ?wd (ErrorString ''unexpected EOF'')"
    using hdr metrics_provisioned
    by (rule ServeHTTP_read_failed) (simp_all add: encoded_request_def)
  then show ?thesis
    using tok
    by (simp add: caddyhttp_Error_ErrorString zero_metrics_def encoded_request_def
          fmt_Errorf_s_def)
qed

text \<open>
  C5, amended. A request whose lower-cased token is not empty and none of \<^verbatim>\<open>gzip\<close>,
  \<^verbatim>\<open>bz2\<close>, \<^verbatim>\<open>zstd\<close>: the failure counter is one more, the success counter is unchanged,
  \<^verbatim>\<open>next\<close> is not called (the result is the same for every \<^verbatim>\<open>next\<close>), and
  \<^verbatim>\<open>ServeHTTP\<close> returns what \<^verbatim>\<open>caddyhttp.Error(http.StatusBadRequest, err)\<close> makes:
  \<^item> when the body was read without error, an HTTP 400 error with the message
    \<^verbatim>\<open>unsupported Content-Encoding: <token>\<close>;
  \<^item> when reading the body failed with an error that neither is nor wraps a
    \<^verbatim>\<open>HandlerError\<close>, an HTTP 400 error around the read error;
  \<^item> when the read error is or wraps a \<^verbatim>\<open>HandlerError\<close> (a body size limit of the server
    answers with 413 in this way), that \<^verbatim>\<open>HandlerError\<close>, with its own status code
    unless that is zero.
\<close>

theorem unsupported_encoding_rejected:
  assumes "metrics m = Some ms"
    and "Body (request wd) < length (readers wd)"
    and "token L wd = enc"
    and "enc \<noteq> ''''" and "enc \<noteq> ''gzip''" and "enc \<noteq> ''bz2''" and "enc \<noteq> ''zstd''"
  shows "\<exists>ms'. ServeHTTP L m next wd =
             Return (Some (case fail (body_reader wd) of
                       None \<Rightarrow>
                         HandlerError 400 (ErrorString (''unsupported Content-Encoding: '' @ enc))
                     | Some e \<Rightarrow>
                         (case errors_As e of
                            None \<Rightarrow> HandlerError 400 e
                          | Some (code, inner) \<Rightarrow>
                              HandlerError (if code = 0 then 400 else code) inner)),
                     m\<lparr>metrics := Some ms'\<rparr>, body_read wd)
         \<and> FailedRequests ms' = FailedRequests ms + 1
         \<and> SuccessfulRequests ms' = SuccessfulRequests ms
         \<and> (\<forall>next'. ServeHTTP L m next' wd = ServeHTTP L m next wd)"
proof -
  have hdr: "Header_Get (Header (request wd)) ''Content-Encoding'' \<noteq> ''''"
    using assms(3,4) token_header [of L wd] by simp
  let ?out = "case fail (body_reader wd) of
      None \<Rightarrow> HandlerError 400 (ErrorString (''unsupported Content-Encoding: '' @ enc))
    | Some e \<Rightarrow>
        (case errors_As e of
           None \<Rightarrow> HandlerError 400 e
         | Some (code, inner) \<Rightarrow> HandlerError (if code = 0 then 400 else code) inner)"
  let ?ms' = "(seen enc ms)\<lparr>FailedRequests := FailedRequests ms + 1\<rparr>"
  have run: "ServeHTTP L m h wd = Return (Some ?out, m\<lparr>metrics := Some ?ms'\<rparr>, body_read wd)"
    for h
  proof (cases "fail (body_reader wd)")
    case None
    with hdr assms
    have "ServeHTTP L m h wd =
        rejected m ms enc wd (ErrorString (''unsupported Content-Encoding: '' @ enc))"
      by (intro ServeHTTP_unsupported)
    with None show ?thesis by (simp add: caddyhttp_Error_ErrorString)
  next
    case (Some e)
    with hdr assms have "ServeHTTP L m h wd = rejected m ms enc wd e"
      by (simp add: ServeHTTP_read_failed)
    with Some show ?thesis by (simp add: caddyhttp_Error_cases)
  qed
  then show ?thesis
    by (intro exI [of _ ?ms']) simp
qed

theorem unsupported_encoding_rejected_witness:
  "token stored_lib (encoded_request ''deflate'' (bytes_NewReader [0x78, 0x9c])) = ''deflate''
   \<and> (\<exists>ms'. ServeHTTP stored_lib provisioned accept
                (encoded_request ''deflate'' (bytes_NewReader [0x78, 0x9c]))
              = Return (Some (HandlerError 400 (ErrorString ''unsupported Content-Encoding: deflate'')),
                        provisioned\<lparr>metrics := Some ms'\<rparr>,
                        (encoded_request ''deflate'' (bytes_NewReader [0x78, 0x9c]))
                          \<lparr>readers := [bytes_NewReader []]\<rparr>)
            \<and> FailedRequests ms' = 1 \<and> SuccessfulRequests ms' = 0)"
proof -
  let ?wd = "encoded_request ''deflate'' (bytes_NewReader [0x78, 0x9c])"
  have h1: "metrics provisioned = Some zero_metrics" by (rule metrics_provisioned)
  have h2: "Body (request ?wd) < length (readers ?wd)" by (simp add: encoded_request_def)
  have h3: "token stored_lib ?wd = ''deflate''" by (rule token_encoded_request_lower)
  have h4: "fail (body_reader ?wd) = None" by (simp add: encoded_request_def bytes_NewReader_def)
  from unsupported_encoding_rejected [OF h1 h2 h3, of accept]
  obtain ms' where
    "ServeHTTP stored_lib provisioned accept ?wd =
       Return (Some (case fail (body_reader ?wd) of
                 None \<Rightarrow>
                   HandlerError 400 (ErrorString (''unsupported Content-Encoding: '' @ ''deflate''))
               | Some e \<Rightarrow>
                   (case errors_As e of
                      None \<Rightarrow> HandlerError 400 e
                    | Some (code, inner) \<Rightarrow>
                        HandlerError (if code = 0 then 400 else code) inner)),
               provisioned\<lparr>metrics := Some ms'\<rparr>, body_read ?wd)"
    "FailedRequests ms' = FailedRequests zero_metrics + 1"
    "SuccessfulRequests ms' = SuccessfulRequests zero_metrics"
    by auto
  with h4 have "ServeHTTP stored_lib provisioned accept ?wd
              = Return (Some (HandlerError 400 (ErrorString ''unsupported Content-Encoding: deflate'')),
                        provisioned\<lparr>metrics := Some ms'\<rparr>,
                        ?wd\<lparr>readers := [bytes_NewReader []]\<rparr>)
            \<and> FailedRequests ms' = 1 \<and> SuccessfulRequests ms' = 0"
    by (simp add: zero_metrics_def encoded_request_def bytes_NewReader_def)
  then have "\<exists>ms'. ServeHTTP stored_lib provisioned accept ?wd
              = Return (Some (HandlerError 400 (ErrorString ''unsupported Content-Encoding: deflate'')),
                        provisioned\<lparr>metrics := Some ms'\<rparr>,
                        ?wd\<lparr>readers := [bytes_NewReader []]\<rparr>)
            \<and> FailedRequests ms' = 1 \<and> SuccessfulRequests ms' = 0"
    by (rule exI)
  with h3 show ?thesis by (intro conjI)
qed

text \<open>
  The third case at work: behind a body size limit, reading a body that is too large
  fails with a \<^verbatim>\<open>HandlerError\<close> of status 413, and that is what \<^verbatim>\<open>ServeHTTP\<close> returns,
  as it is and not inside a second \<^verbatim>\<open>HandlerError\<close>.
\<close>

lemma read_error_keeps_its_status:
  "ServeHTTP stored_lib provisioned accept
     (encoded_request ''deflate''
        \<lparr>data = [0x78], fail = Some (HandlerError 413 (ErrorString ''http: request body too large''))\<rparr>)
   = Return (Some (HandlerError 413 (ErrorString ''http: request body too large'')),
             deflate_counted,
             (encoded_request ''deflate''
                \<lparr>data = [0x78], fail = Some (HandlerError 413 (ErrorString ''http: request body too large''))\<rparr>)
               \<lparr>readers := [\<lparr>data = [],
                    fail = Some (HandlerError 413 (ErrorString ''http: request body too large''))\<rparr>]\<rparr>)"
proof -
  let ?e = "HandlerError 413 (ErrorString ''http: request body too large'')"
  let ?wd = "encoded_request ''deflate'' \<lparr>data = [0x78], fail = Some ?e\<rparr>"
  have tok: "token stored_lib ?wd = ''deflate''" by (rule token_encoded_request_lower)
  then have hdr: "Header_Get (Header (request ?wd)) ''Content-Encoding'' \<noteq> ''''"
    using token_header [of stored_lib ?wd] by simp
  have "ServeHTTP stored_lib provisioned accept ?wd
          = rejected provisioned zero_metrics (token stored_lib ?wd) ?wd ?e"
    using hdr metrics_provisioned
    by (rule ServeHTTP_read_failed) (simp_all add: encoded_request_def)
  then show ?thesis
    using tok
    by (simp add: caddyhttp_Error_cases deflate_counted_def zero_metrics_def encoded_request_def)
qed



text \<open>
  C6. The counters balance. \<^verbatim>\<open>Provision\<close> makes metrics with
  \<open>SuccessfulRequests + FailedRequests = TotalRequests\<close> (all zero), and every call of
  \<^verbatim>\<open>ServeHTTP\<close> that returns keeps the equation (in \<^verbatim>\<open>int64\<close> arithmetic): a call without
  \<^verbatim>\<open>Content-Encoding\<close> value leaves the metrics as they are, any other call adds one to
  the total and one to exactly one of the success and the failure counter.
\<close>

theorem counters_balanced:
  "(\<exists>ms0. metrics (fst (Provision m0 lg)) = Some ms0
       \<and> SuccessfulRequests ms0 + FailedRequests ms0 = TotalRequests ms0)
   \<and> (metrics m = Some ms
        \<and> SuccessfulRequests ms + FailedRequests ms = TotalRequests ms
        \<and> ServeHTTP L m next wd = Return (out, m', wd')
      \<longrightarrow> (\<exists>ms'. metrics m' = Some ms'
            \<and> SuccessfulRequests ms' + FailedRequests ms' = TotalRequests ms'
            \<and> (if Header_Get (Header (request wd)) ''Content-Encoding'' = '''' then ms' = ms
                else TotalRequests ms' = TotalRequests ms + 1
                   \<and> (SuccessfulRequests ms' = SuccessfulRequests ms + 1
                         \<and> FailedRequests ms' = FailedRequests ms
                       \<or> SuccessfulRequests ms' = SuccessfulRequests ms
                         \<and> FailedRequests ms' = FailedRequests ms + 1))))"
proof (intro conjI impI)
  show "\<exists>ms0. metrics (fst (Provision m0 lg)) = Some ms0
       \<and> SuccessfulRequests ms0 + FailedRequests ms0 = TotalRequests ms0"
    by (simp add: Provision_def)
next
  assume a: "metrics m = Some ms
        \<and> SuccessfulRequests ms + FailedRequests ms = TotalRequests ms
        \<and> ServeHTTP L m next wd = Return (out, m', wd')"
  then have prov: "metrics m = Some ms"
    and bal: "SuccessfulRequests ms + FailedRequests ms = TotalRequests ms"
    and ret: "ServeHTTP L m next wd = Return (out, m', wd')"
    by simp_all
  from ret show "\<exists>ms'. metrics m' = Some ms'
            \<and> SuccessfulRequests ms' + FailedRequests ms' = TotalRequests ms'
            \<and> (if Header_Get (Header (request wd)) ''Content-Encoding'' = '''' then ms' = ms
                else TotalRequests ms' = TotalRequests ms + 1
                   \<and> (SuccessfulRequests ms' = SuccessfulRequests ms + 1
                         \<and> FailedRequests ms' = FailedRequests ms
                       \<or> SuccessfulRequests ms' = SuccessfulRequests ms
                         \<and> FailedRequests ms' = FailedRequests ms + 1))"
  proof (cases rule: ServeHTTP_Return_cases)
    case passthrough
    with prov bal show ?thesis by simp
  next
    case (rejected ms1 e)
    with prov bal show ?thesis by (auto simp: add.assoc [symmetric])
  next
    case (forwarded ms1 d)
    with prov bal show ?thesis by (auto simp: add.commute add.left_commute)
  qed
qed

theorem counters_balanced_witness:
  "metrics provisioned = Some zero_metrics
   \<and> SuccessfulRequests zero_metrics + FailedRequests zero_metrics = TotalRequests zero_metrics
   \<and> ServeHTTP stored_lib provisioned accept deflate_request
       = Return (Some (HandlerError 400 (ErrorString ''unsupported Content-Encoding: deflate'')),
                 deflate_counted, deflate_request\<lparr>readers := [bytes_NewReader []]\<rparr>)
   \<and> (\<exists>ms'. metrics deflate_counted = Some ms'
          \<and> SuccessfulRequests ms' + FailedRequests ms' = TotalRequests ms'
          \<and> TotalRequests ms' = 1 \<and> SuccessfulRequests ms' = 0 \<and> FailedRequests ms' = 1)"
proof -
  have h1: "metrics provisioned = Some zero_metrics" by (rule metrics_provisioned)
  have h2: "SuccessfulRequests zero_metrics + FailedRequests zero_metrics = TotalRequests zero_metrics"
    by (simp add: zero_metrics_def)
  have h3: "ServeHTTP stored_lib provisioned accept deflate_request
       = Return (Some (HandlerError 400 (ErrorString ''unsupported Content-Encoding: deflate'')),
                 deflate_counted, deflate_request\<lparr>readers := [bytes_NewReader []]\<rparr>)"
    by (rule ServeHTTP_deflate_request)
  note step = counters_balanced [of "\<lparr>logger = None, metrics = None\<rparr>" "()" provisioned
        zero_metrics stored_lib accept deflate_request
        "Some (HandlerError 400 (ErrorString ''unsupported Content-Encoding: deflate''))"
        deflate_counted "deflate_request\<lparr>readers := [bytes_NewReader []]\<rparr>",
        THEN conjunct2, THEN mp, OF conjI [OF h1 conjI [OF h2 h3]]]
  then obtain ms' where m: "metrics deflate_counted = Some ms'"
    and b: "SuccessfulRequests ms' + FailedRequests ms' = TotalRequests ms'"
    by blast
  from m have "TotalRequests ms' = 1" "SuccessfulRequests ms' = 0" "FailedRequests ms' = 1"
    by (auto simp: deflate_counted_def zero_metrics_def)
  with m b have "\<exists>ms'. metrics deflate_counted = Some ms'
          \<and> SuccessfulRequests ms' + FailedRequests ms' = TotalRequests ms'
          \<and> TotalRequests ms' = 1 \<and> SuccessfulRequests ms' = 0 \<and> FailedRequests ms' = 1"
    by blast
  with h1 h2 h3 show ?thesis by (intro conjI)
qed

text \<open>
  C9. \<^verbatim>\<open>DecompressionTimings\<close> is zero after \<^verbatim>\<open>Provision\<close>, and whatever way a call of
  \<^verbatim>\<open>ServeHTTP\<close> takes, the field holds after the call what it held before: nothing
  writes it.
\<close>

theorem timings_never_written:
  "map_option DecompressionTimings (metrics (fst (Provision m0 lg))) = Some 0
   \<and> (ServeHTTP L m next wd = Return (out, m', wd') \<longrightarrow>
        map_option DecompressionTimings (metrics m') = map_option DecompressionTimings (metrics m))"
proof
  show "map_option DecompressionTimings (metrics (fst (Provision m0 lg))) = Some 0"
    by (simp add: Provision_def)
  show "ServeHTTP L m next wd = Return (out, m', wd') \<longrightarrow>
        map_option DecompressionTimings (metrics m') = map_option DecompressionTimings (metrics m)"
  proof
    assume "ServeHTTP L m next wd = Return (out, m', wd')"
    then show "map_option DecompressionTimings (metrics m') = map_option DecompressionTimings (metrics m)"
      by (cases rule: ServeHTTP_Return_cases) simp_all
  qed
qed

theorem timings_never_written_witness:
  "ServeHTTP stored_lib provisioned accept hi_request = Return (None, hi_counted, hi_decoded)
   \<and> map_option DecompressionTimings (metrics hi_counted) = Some 0"
proof -
  have h: "ServeHTTP stored_lib provisioned accept hi_request = Return (None, hi_counted, hi_decoded)"
    by (simp add: ServeHTTP_hi_request accept_def)
  from timings_never_written [of "\<lparr>logger = None, metrics = None\<rparr>" "()" stored_lib provisioned
         accept hi_request None hi_counted hi_decoded] h
  have "map_option DecompressionTimings (metrics hi_counted) = Some 0"
    by (simp add: provisioned_def)
  with h show ?thesis by simp
qed

text \<open>
  C10, as stated, fails: on the success path \<^verbatim>\<open>ServeHTTP\<close> returns what \<^verbatim>\<open>next\<close> returns,
  and \<^verbatim>\<open>next\<close> may return an HTTP 400 error of its own (here for a body that is
  not the JSON it expects). The call then returns an HTTP 400 error, and the middleware
  has removed the header, replaced \<^verbatim>\<open>r.Body\<close> and rewritten \<^verbatim>\<open>ContentLength\<close>.
\<close>

theorem downstream_400_counterexample:
  "ServeHTTP stored_lib provisioned refuse hi_request
     = Return (Some (HandlerError 400 (ErrorString ''malformed JSON'')), hi_counted, hi_decoded)
   \<and> Header (request hi_request) ''Content-Encoding'' = Some [''gzip'']
   \<and> Header (request hi_decoded) ''Content-Encoding'' = None
   \<and> Body (request hi_request) = 0 \<and> Body (request hi_decoded) = 1
   \<and> ContentLength (request hi_request) = 5 \<and> ContentLength (request hi_decoded) = 2"
proof -
  have "ServeHTTP stored_lib provisioned refuse hi_request
     = Return (Some (HandlerError 400 (ErrorString ''malformed JSON'')), hi_counted, hi_decoded)"
    by (simp add: ServeHTTP_hi_request refuse_def)
  moreover have "Header (request hi_request) ''Content-Encoding'' = Some [''gzip'']"
    "Body (request hi_request) = 0" "ContentLength (request hi_request) = 5"
    by (simp_all add: hi_request_def encoded_request_def bytes_NewReader_def gzip_hi_def)
  moreover have "Header (request hi_decoded) ''Content-Encoding'' = None"
    "Body (request hi_decoded) = 1" "ContentLength (request hi_decoded) = 2"
    by (simp_all add: hi_decoded_def)
  ultimately show ?thesis by (intro conjI)
qed

text \<open>
  C10, amended. When \<^verbatim>\<open>ServeHTTP\<close> returns an HTTP 400 error and the result of the call
  does not depend on \<^verbatim>\<open>next\<close> (the middleware's own rejection: \<^verbatim>\<open>next\<close> is not
  called), the header map, the \<^verbatim>\<open>Body\<close> field and \<^verbatim>\<open>ContentLength\<close> of the request are
  what they were. The world differs from the one given only in that the reader behind
  \<^verbatim>\<open>r.Body\<close> has been read to its end. This holds whatever \<^verbatim>\<open>next\<close> is, also for a
  \<^verbatim>\<open>next\<close> that would return the same error had it been called.
\<close>

theorem rejection_leaves_request:
  assumes "ServeHTTP L m next wd = Return (Some (HandlerError 400 e), m', wd')"
    and "\<forall>next'. ServeHTTP L m next' wd = ServeHTTP L m next wd"
  shows "Header (request wd') = Header (request wd)
       \<and> Body (request wd') = Body (request wd)
       \<and> ContentLength (request wd') = ContentLength (request wd)
       \<and> wd' = body_read wd"
proof -
  let ?quiet = "\<lambda>w :: 'b world. (None :: error option, w)"
  from assms have "ServeHTTP L m ?quiet wd = Return (Some (HandlerError 400 e), m', wd')"
    by simp
  then show ?thesis
  proof (cases rule: ServeHTTP_Return_cases)
    case passthrough
    then show ?thesis by simp
  next
    case (rejected ms e')
    then show ?thesis by simp
  next
    case (forwarded ms d)
    then show ?thesis by simp
  qed
qed

theorem rejection_leaves_request_witness:
  "ServeHTTP stored_lib provisioned refuse deflate_request
     = Return (Some (HandlerError 400 (ErrorString ''unsupported Content-Encoding: deflate'')),
               deflate_counted, deflate_request\<lparr>readers := [bytes_NewReader []]\<rparr>)
   \<and> (\<forall>next'. ServeHTTP stored_lib provisioned next' deflate_request
                = ServeHTTP stored_lib provisioned refuse deflate_request)
   \<and> Header (request (deflate_request\<lparr>readers := [bytes_NewReader []]\<rparr>)) = Header (request deflate_request)
   \<and> Body (request (deflate_request\<lparr>readers := [bytes_NewReader []]\<rparr>)) = Body (request deflate_request)
   \<and> ContentLength (request (deflate_request\<lparr>readers := [bytes_NewReader []]\<rparr>))
       = ContentLength (request deflate_request)"
proof -
  have h1: "ServeHTTP stored_lib provisioned refuse deflate_request
     = Return (Some (HandlerError 400 (ErrorString ''unsupported Content-Encoding: deflate'')),
               deflate_counted, deflate_request\<lparr>readers := [bytes_NewReader []]\<rparr>)"
    by (rule ServeHTTP_deflate_request)
  have h2: "\<forall>next'. ServeHTTP stored_lib provisioned next' deflate_request
                = ServeHTTP stored_lib provisioned refuse deflate_request"
    by (simp add: ServeHTTP_deflate_request)
  from rejection_leaves_request [OF h1 h2] h1 h2 show ?thesis by simp
qed

end
